theory Spec2Isabelle
  imports Complex_Main "HOL-Library.AList"
begin

section \<open>Values of the program\<close>

text \<open>
  A Python float is a finite value (a rational; the two zeros are identified, they compare
  equal and are both falsy), an infinity or NaN. Comparison and truthiness are exact on
  this representation. Arithmetic rounds: the rounding function \<open>rnd\<close> (round to nearest
  double, overflowing to an infinity) is a parameter of the environment.
\<close>

datatype pyfloat = Fin rat | PosInf | NegInf | NaN

text \<open>\<open>bool(x)\<close> of a float: false exactly for zero.\<close>

fun truthy :: "pyfloat \<Rightarrow> bool" where
  "truthy (Fin r) = (r \<noteq> 0)"
| "truthy PosInf = True"
| "truthy NegInf = True"
| "truthy NaN = True"

text \<open>\<open>a >= b\<close> and \<open>a == b\<close> on floats; every comparison with NaN is false.\<close>

fun fge :: "pyfloat \<Rightarrow> pyfloat \<Rightarrow> bool" where
  "fge NaN b = False"
| "fge a NaN = False"
| "fge PosInf b = True"
| "fge a NegInf = True"
| "fge NegInf b = False"
| "fge a PosInf = False"
| "fge (Fin a) (Fin b) = (b \<le> a)"

fun feq :: "pyfloat \<Rightarrow> pyfloat \<Rightarrow> bool" where
  "feq (Fin a) (Fin b) = (a = b)"
| "feq PosInf PosInf = True"
| "feq NegInf NegInf = True"
| "feq a b = False"

fun fneg :: "pyfloat \<Rightarrow> pyfloat" where
  "fneg (Fin a) = Fin (- a)"
| "fneg PosInf = NegInf"
| "fneg NegInf = PosInf"
| "fneg NaN = NaN"

fun fadd :: "(rat \<Rightarrow> pyfloat) \<Rightarrow> pyfloat \<Rightarrow> pyfloat \<Rightarrow> pyfloat" where
  "fadd rnd (Fin a) (Fin b) = rnd (a + b)"
| "fadd rnd NaN b = NaN"
| "fadd rnd a NaN = NaN"
| "fadd rnd PosInf NegInf = NaN"
| "fadd rnd NegInf PosInf = NaN"
| "fadd rnd PosInf b = PosInf"
| "fadd rnd NegInf b = NegInf"
| "fadd rnd a PosInf = PosInf"
| "fadd rnd a NegInf = NegInf"

definition fsub :: "(rat \<Rightarrow> pyfloat) \<Rightarrow> pyfloat \<Rightarrow> pyfloat \<Rightarrow> pyfloat" where
  "fsub rnd a b = fadd rnd a (fneg b)"

text \<open>The sign of a float that is neither zero nor NaN, as used by multiplication.\<close>

fun fpositive :: "pyfloat \<Rightarrow> bool" where
  "fpositive (Fin a) = (0 < a)"
| "fpositive PosInf = True"
| "fpositive NegInf = False"
| "fpositive NaN = False"

fun fmul :: "(rat \<Rightarrow> pyfloat) \<Rightarrow> pyfloat \<Rightarrow> pyfloat \<Rightarrow> pyfloat" where
  "fmul rnd (Fin a) (Fin b) = rnd (a * b)"
| "fmul rnd NaN b = NaN"
| "fmul rnd a NaN = NaN"
| "fmul rnd a b =
     (if \<not> truthy a \<or> \<not> truthy b then NaN
      else if fpositive a = fpositive b then PosInf else NegInf)"

datatype exn =
    ValueError | OverflowError | TypeError | KeyError | ZeroDivisionError
  | RPCException | OtherError string

text \<open>\<open>a / b\<close>: division by zero raises.\<close>

fun fdiv :: "(rat \<Rightarrow> pyfloat) \<Rightarrow> pyfloat \<Rightarrow> pyfloat \<Rightarrow> exn + pyfloat" where
  "fdiv rnd a (Fin b) =
     (if b = 0 then Inl ZeroDivisionError
      else case a of
          Fin x \<Rightarrow> Inr (rnd (x / b))
        | NaN \<Rightarrow> Inr NaN
        | _ \<Rightarrow> Inr (if fpositive a = (0 < b) then PosInf else NegInf))"
| "fdiv rnd NaN b = Inr NaN"
| "fdiv rnd a NaN = Inr NaN"
| "fdiv rnd (Fin x) b = Inr (Fin 0)"
| "fdiv rnd a b = Inr NaN"

text \<open>\<open>int(x)\<close> of a float: truncation towards zero; NaN and the infinities raise.\<close>

fun py_int :: "pyfloat \<Rightarrow> exn + int" where
  "py_int (Fin r) = Inr (if 0 \<le> r then \<lfloor>r\<rfloor> else \<lceil>r\<rceil>)"
| "py_int NaN = Inl ValueError"
| "py_int PosInf = Inl OverflowError"
| "py_int NegInf = Inl OverflowError"

subsection \<open>Strings\<close>

fun startswith :: "string \<Rightarrow> string \<Rightarrow> bool" where
  "startswith s [] = True"
| "startswith [] (p # ps) = False"
| "startswith (c # cs) (p # ps) = (c = p \<and> startswith cs ps)"

text \<open>\<open>sub in s\<close> on strings.\<close>

fun contains :: "string \<Rightarrow> string \<Rightarrow> bool" where
  "contains [] sub = (sub = [])"
| "contains (c # cs) sub = (startswith (c # cs) sub \<or> contains cs sub)"

text \<open>
  \<open>str.lower()\<close>, on the ASCII letters. (Strings are byte strings here; the only text
  searched for in a lowered string is ASCII.)
\<close>

definition lower_char :: "char \<Rightarrow> char" where
  "lower_char c =
     (let n = (of_char c :: nat) in if 65 \<le> n \<and> n \<le> 90 then char_of (n + 32) else c)"

definition lower :: "string \<Rightarrow> string" where
  "lower s = map lower_char s"

text \<open>
  \<open>str.strip()\<close>: the leading and the trailing whitespace characters removed. A string
  is the UTF-8 encoding of the Python text; the whitespace characters are those of
  \<open>str.isspace\<close>: U+0009 to U+000D, U+001C to U+0020, U+0085, U+00A0, U+1680, U+2000 to
  U+200A, U+2028, U+2029, U+202F, U+205F and U+3000, here by their encodings.
\<close>

definition whitespace :: "string list" where
  "whitespace =
     map (map char_of)
       ([[9], [10], [11], [12], [13], [28], [29], [30], [31], [32],
         [194, 133], [194, 160], [225, 154, 128]] @
        map (\<lambda>n. [226, 128, n]) [128 ..< 139] @
        [[226, 128, 168], [226, 128, 169], [226, 128, 175], [226, 129, 159],
         [227, 128, 128]] :: nat list list)"

text \<open>The number of bytes of the whitespace character that a string starts with, 0
  when it starts with none.\<close>

definition space_len :: "string list \<Rightarrow> string \<Rightarrow> nat" where
  "space_len ws s = (case filter (startswith s) ws of [] \<Rightarrow> 0 | w # _ \<Rightarrow> length w)"

fun lstrip :: "string list \<Rightarrow> string \<Rightarrow> string" where
  "lstrip ws [] = []"
| "lstrip ws (c # cs) =
     (let n = space_len ws (c # cs)
      in if n = 0 then c # cs else lstrip ws (drop (n - 1) cs))"

text \<open>The trailing characters are the leading ones of the reversed string, their bytes
  reversed.\<close>

definition strip :: "string \<Rightarrow> string" where
  "strip s = rev (lstrip (map rev whitespace) (rev (lstrip whitespace s)))"

text \<open>\<open>data.split("_")[1]\<close>: the text between the first and the second underscore.
  Indexing raises when there is no underscore.\<close>

definition split_1 :: "string \<Rightarrow> string option" where
  "split_1 s =
     (case dropWhile (\<lambda>c. c \<noteq> CHR ''_'') s of
        [] \<Rightarrow> None
      | _ # rest \<Rightarrow> Some (takeWhile (\<lambda>c. c \<noteq> CHR ''_'') rest))"

subsection \<open>Decoded JSON\<close>

text \<open>
  What \<open>resp.json()\<close> returns. An object is the list of the items of the decoded dict
  (keys distinct); a number is the float that \<open>float()\<close> gives for it.
\<close>

datatype json =
    JNull | JBool bool | JNum pyfloat | JStr string
  | JArr "json list" | JObj "(string \<times> json) list"

datatype http = HttpFails | HttpJson json

fun truthy_json :: "json \<Rightarrow> bool" where
  "truthy_json JNull = False"
| "truthy_json (JBool b) = b"
| "truthy_json (JNum x) = truthy x"
| "truthy_json (JStr s) = (s \<noteq> [])"
| "truthy_json (JArr xs) = (xs \<noteq> [])"
| "truthy_json (JObj kvs) = (kvs \<noteq> [])"

section \<open>State\<close>

type_synonym uid = int

datatype keypair = Keypair string

record position =
  amount :: pyfloat
  purchase_price :: "pyfloat option"
  signature :: string
  timestamp :: pyfloat
  pair :: string

text \<open>
  \<open>context.user_data\<close> of one user: the five flags read with \<open>.get\<close>; a missing key
  reads as false.
\<close>

record flags =
  awaiting_connectwallet :: bool
  awaiting_setpair :: bool
  awaiting_alert :: bool
  awaiting_buy_custom :: bool
  awaiting_sell_custom :: bool

text \<open>
  The four global dictionaries and the per-user \<open>user_data\<close>. \<open>price_alerts\<close> is
  iterated, so it keeps the insertion order of a Python dict.
\<close>

record state =
  user_pairs :: "uid \<rightharpoonup> string"
  price_alerts :: "(uid \<times> pyfloat) list"
  user_wallets :: "uid \<rightharpoonup> keypair"
  positions :: "uid \<rightharpoonup> position list"
  user_data :: "uid \<Rightarrow> flags"

definition no_flags :: flags where
  "no_flags = \<lparr>awaiting_connectwallet = False, awaiting_setpair = False,
     awaiting_alert = False, awaiting_buy_custom = False, awaiting_sell_custom = False\<rparr>"

definition init_state :: state where
  "init_state = \<lparr>user_pairs = Map.empty, price_alerts = [], user_wallets = Map.empty,
     positions = Map.empty, user_data = (\<lambda>_. no_flags)\<rparr>"

section \<open>Environment\<close>

text \<open>
  Everything outside the program, for the handling of one event: float rounding,
  \<open>float(text)\<close> (None: ValueError),
  \<open>Keypair.from_bytes(base58.b58decode(text))\<close> (Inl: the text of the exception),
  \<open>str(kp.pubkey())\<close>, the decoded body of the oracle's answer to the request made for
  a user and a pair, \<open>transfer(TransferParams(...))\<close> (Some: it raises), the body of the
  \<open>try\<close> block that sends a transaction (Inl: the text of the exception; Inr: the
  signature), \<open>solana_client.get_balance(pubkey)["result"]["value"]\<close>, and \<open>time.time()\<close>.
\<close>

record env =
  rnd :: "rat \<Rightarrow> pyfloat"
  parse_float :: "string \<Rightarrow> pyfloat option"
  keypair_from_base58 :: "string \<Rightarrow> string + keypair"
  pubkey :: "keypair \<Rightarrow> string"
  http_get_json :: "uid \<Rightarrow> string \<Rightarrow> http"
  transfer :: "keypair \<Rightarrow> int \<Rightarrow> exn option"
  rpc_send :: "keypair \<Rightarrow> int \<Rightarrow> string + string"
  get_balance :: "keypair \<Rightarrow> exn + int"
  now :: pyfloat

section \<open>Messages and effects\<close>

datatype side = Purchase | Sale

text \<open>
  The \<open>error\<close> text of a failed transaction: "Insufficient funds for purchase/sale." or
  "Error during purchase/sale:" followed by the text of the exception.
\<close>

datatype tx_error = InsufficientFunds side | BackendError side string

text \<open>The dict returned by a transaction function: status ok with the signature, or
  status error with the error text.\<close>

datatype tx_result = TxOk string | TxError tx_error

text \<open>One constructor per message text of the program, with the values it shows.\<close>

datatype reply =
    Menu "string option"
  | AskPrivateKey | AskPair | AskAlertPrice | AskBuyAmount | AskSellAmount
  | WalletConnected string | WalletError string
  | UsageSetpair | PairSet string
  | NoPairYet | CurrentPrice string pyfloat | PriceUnavailable
  | NoWalletBalance | BalanceIs string pyfloat
  | NoOpenPositions | NoPairForPnL | NoPositionsForPair
  | PositionsReport string "(position \<times> pyfloat) list" pyfloat
  | UsageAlert | AlertSet pyfloat | InvalidPrice
  | NoWalletBuy | BuyMenu | NoWalletSell | SellMenu | NoWalletOperate
  | TxFailed tx_error
  | PurchaseExecuted pyfloat string string
  | NothingToSell
  | SellAllExecuted pyfloat string string
  | SaleExecuted pyfloat string string
  | InvalidAmountBuy | InvalidAmountSell
  | AlertFired string pyfloat pyfloat

text \<open>
  What a handler does to the outside, in order: a reply to the user of the event, a
  photo reply, a message sent to a chat by the alert job, and a call of the backend for
  a transaction (signer and lamports): the \<open>try\<close> block of a transaction function is
  entered, which asks the backend for the latest blockhash and, when that returns,
  sends the transaction.
\<close>

datatype effect = Reply reply | Photo json | Send uid reply | Rpc keypair int

text \<open>The result of a handler: the state it leaves, what it did, and the exception
  that left it, if any.\<close>

record outcome =
  st :: state
  out :: "effect list"
  raised :: "exn option"

definition finish :: "state \<Rightarrow> effect list \<Rightarrow> outcome" where
  "finish s es = \<lparr>st = s, out = es, raised = None\<rparr>"

definition raise :: "state \<Rightarrow> effect list \<Rightarrow> exn \<Rightarrow> outcome" where
  "raise s es e = \<lparr>st = s, out = es, raised = Some e\<rparr>"

text \<open>Effects done before a call come first.\<close>

definition after :: "effect list \<Rightarrow> outcome \<Rightarrow> outcome" where
  "after es r = r\<lparr>out := es @ out r\<rparr>"

section \<open>Price oracle\<close>

text \<open>
  The dict returned by \<open>get_dexscreener_info\<close>: empty, or with the keys \<open>price\<close> and
  \<open>icon\<close>, either of which may hold None.
\<close>

datatype info = Empty | Info "pyfloat option" "json option"

text \<open>\<open>float(v)\<close> of a decoded JSON value; None where it raises.\<close>

fun float_of_json :: "env \<Rightarrow> json \<Rightarrow> pyfloat option" where
  "float_of_json e (JNum x) = Some x"
| "float_of_json e (JBool b) = Some (Fin (if b then 1 else 0))"
| "float_of_json e (JStr s) = parse_float e s"
| "float_of_json e v = None"

text \<open>\<open>d.get(k)\<close> on a decoded object: a JSON null is Python's None.\<close>

definition json_get :: "(string \<times> json) list \<Rightarrow> string \<Rightarrow> json option" where
  "json_get kvs k = (case map_of kvs k of Some JNull \<Rightarrow> None | r \<Rightarrow> r)"

text \<open>
  Every exception inside the \<open>try\<close> gives the empty dict: a failed request, a body that
  is not an object, \<open>pairs\<close> that is not a list, a first pair that is not an object, a
  price that \<open>float\<close> rejects.
\<close>

definition get_dexscreener_info :: "env \<Rightarrow> uid \<Rightarrow> string \<Rightarrow> info" where
  "get_dexscreener_info e u pair_id =
     (case http_get_json e u pair_id of
        HttpFails \<Rightarrow> Empty
      | HttpJson data \<Rightarrow>
          (case data of
             JObj kvs \<Rightarrow>
               (case map_of kvs ''pairs'' of
                  Some (JArr (JObj pair_info # rest)) \<Rightarrow>
                    (let price_usd = json_get pair_info ''priceUsd'';
                         icon = json_get pair_info ''icon''
                     in case price_usd of
                          None \<Rightarrow> Info None icon
                        | Some v \<Rightarrow>
                            if truthy_json v
                            then (case float_of_json e v of
                                    None \<Rightarrow> Empty
                                  | Some x \<Rightarrow> Info (Some x) icon)
                            else Info None icon)
                | _ \<Rightarrow> Empty)
           | _ \<Rightarrow> Empty))"

text \<open>\<open>info.get("price")\<close> and \<open>info.get("price", 0.0)\<close>: the default is used only
  when the key is missing.\<close>

fun get_price :: "info \<Rightarrow> pyfloat option" where
  "get_price Empty = None"
| "get_price (Info p i) = p"

fun get_price_default :: "info \<Rightarrow> pyfloat option" where
  "get_price_default Empty = Some (Fin 0)"
| "get_price_default (Info p i) = p"

fun get_icon :: "info \<Rightarrow> json option" where
  "get_icon Empty = None"
| "get_icon (Info p i) = i"

section \<open>Transactions\<close>

text \<open>\<open>int(amount * 1e9)\<close>.\<close>

definition lamports :: "env \<Rightarrow> pyfloat \<Rightarrow> exn + int" where
  "lamports e amt = py_int (fmul (rnd e) amt (Fin 1000000000))"

definition classify :: "side \<Rightarrow> string \<Rightarrow> tx_error" where
  "classify sd msg =
     (if contains (lower msg) ''insufficient funds'' then InsufficientFunds sd
      else BackendError sd msg)"

text \<open>
  The instruction is built before the \<open>try\<close>, so an exception there leaves the
  function. Inside the \<open>try\<close> the backend is asked for the latest blockhash and
  the transaction is sent, once; an exception of either is turned into the error dict.
\<close>

definition execute_transaction ::
  "side \<Rightarrow> env \<Rightarrow> pyfloat \<Rightarrow> keypair \<Rightarrow> effect list \<times> (exn + tx_result)" where
  "execute_transaction sd e amt user_kp =
     (case lamports e amt of
        Inl x \<Rightarrow> ([], Inl x)
      | Inr l \<Rightarrow>
          (case transfer e user_kp l of
             Some x \<Rightarrow> ([], Inl x)
           | None \<Rightarrow>
               ([Rpc user_kp l],
                Inr (case rpc_send e user_kp l of
                       Inr sig \<Rightarrow> TxOk sig
                     | Inl msg \<Rightarrow> TxError (classify sd msg)))))"

definition execute_buy_transaction ::
  "env \<Rightarrow> pyfloat \<Rightarrow> keypair \<Rightarrow> effect list \<times> (exn + tx_result)" where
  "execute_buy_transaction = execute_transaction Purchase"

definition execute_sell_transaction ::
  "env \<Rightarrow> pyfloat \<Rightarrow> keypair \<Rightarrow> effect list \<times> (exn + tx_result)" where
  "execute_sell_transaction = execute_transaction Sale"

text \<open>\<open>get_balance_solana\<close>: RPCException and KeyError give 0.0, any other exception
  leaves the function.\<close>

definition get_balance_solana :: "env \<Rightarrow> keypair \<Rightarrow> exn + pyfloat" where
  "get_balance_solana e kp =
     (case get_balance e kp of
        Inr balance_lamports \<Rightarrow>
          (case rnd e (of_int balance_lamports) of
             Fin x \<Rightarrow> fdiv (rnd e) (Fin x) (Fin 1000000000)
           | _ \<Rightarrow> Inl OverflowError)
      | Inl x \<Rightarrow> if x = RPCException \<or> x = KeyError then Inr (Fin 0) else Inl x)"

section \<open>Handlers\<close>

definition set_flags :: "state \<Rightarrow> uid \<Rightarrow> (flags \<Rightarrow> flags) \<Rightarrow> state" where
  "set_flags s u f = s\<lparr>user_data := (user_data s)(u := f (user_data s u))\<rparr>"

text \<open>\<open>user_pairs.get(user_id, "")\<close>.\<close>

definition pair_or_empty :: "state \<Rightarrow> uid \<Rightarrow> string" where
  "pair_or_empty s u = (case user_pairs s u of Some p \<Rightarrow> p | None \<Rightarrow> [])"

text \<open>\<open>positions.get(user_id, [])\<close>.\<close>

definition positions_of :: "state \<Rightarrow> uid \<Rightarrow> position list" where
  "positions_of s u = (case positions s u of Some ps \<Rightarrow> ps | None \<Rightarrow> [])"

definition start_command :: "env \<Rightarrow> state \<Rightarrow> uid \<Rightarrow> outcome" where
  "start_command e s u =
     finish s [Reply (Menu (case user_wallets s u of
                              Some kp \<Rightarrow> Some (take 7 (pubkey e kp))
                            | None \<Rightarrow> None))]"

definition connectwallet_command :: "env \<Rightarrow> state \<Rightarrow> uid \<Rightarrow> string list \<Rightarrow> outcome" where
  "connectwallet_command e s u args =
     (case args of
        [] \<Rightarrow> finish (set_flags s u (\<lambda>f. f\<lparr>awaiting_connectwallet := True\<rparr>))
                [Reply AskPrivateKey]
      | pk_base58 # _ \<Rightarrow>
          (case keypair_from_base58 e pk_base58 of
             Inr new_kp \<Rightarrow>
               (let s' = s\<lparr>user_wallets := (user_wallets s)(u \<mapsto> new_kp)\<rparr>
                in after [Reply (WalletConnected (take 7 (pubkey e new_kp)))]
                     (start_command e s' u))
           | Inl msg \<Rightarrow> after [Reply (WalletError msg)] (start_command e s u)))"

definition setpair_command :: "env \<Rightarrow> state \<Rightarrow> uid \<Rightarrow> string list \<Rightarrow> outcome" where
  "setpair_command e s u args =
     (case args of
        [] \<Rightarrow> finish s [Reply UsageSetpair]
      | pair_id # _ \<Rightarrow>
          (let s' = s\<lparr>user_pairs := (user_pairs s)(u \<mapsto> pair_id)\<rparr>
           in after [Reply (PairSet pair_id)] (start_command e s' u)))"

definition price_command :: "env \<Rightarrow> state \<Rightarrow> uid \<Rightarrow> outcome" where
  "price_command e s u =
     (case user_pairs s u of
        None \<Rightarrow> finish s [Reply NoPairYet]
      | Some pair_id \<Rightarrow>
          (case get_dexscreener_info e u pair_id of
             Info (Some p) icon \<Rightarrow>
               finish s (Reply (CurrentPrice pair_id p) #
                 (case icon of
                    Some i \<Rightarrow> if truthy_json i then [Photo i] else []
                  | None \<Rightarrow> []))
           | _ \<Rightarrow> finish s [Reply PriceUnavailable]))"

definition balance_command :: "env \<Rightarrow> state \<Rightarrow> uid \<Rightarrow> outcome" where
  "balance_command e s u =
     (case user_wallets s u of
        None \<Rightarrow> finish s [Reply NoWalletBalance]
      | Some kp \<Rightarrow>
          (case get_balance_solana e kp of
             Inl x \<Rightarrow> raise s [] x
           | Inr bal \<Rightarrow> finish s [Reply (BalanceIs (pubkey e kp) bal)]))"

text \<open>
  The loop of \<open>positions_command\<close>: for each position the PnL
  \<open>(current_price - purchase_price) * amount\<close> is computed and added to the total.
  Subtracting with a None operand raises TypeError, and the loop is left.
\<close>

fun pnl_loop ::
  "env \<Rightarrow> pyfloat option \<Rightarrow> position list \<Rightarrow> (position \<times> pyfloat) list \<Rightarrow> pyfloat
     \<Rightarrow> exn + ((position \<times> pyfloat) list \<times> pyfloat)" where
  "pnl_loop e current_price [] rows total_pnl = Inr (rows, total_pnl)"
| "pnl_loop e current_price (pos # rest) rows total_pnl =
     (case (current_price, purchase_price pos) of
        (Some c, Some pp) \<Rightarrow>
          (let pnl = fmul (rnd e) (fsub (rnd e) c pp) (amount pos)
           in pnl_loop e current_price rest (rows @ [(pos, pnl)])
                (fadd (rnd e) total_pnl pnl))
      | _ \<Rightarrow> Inl TypeError)"

definition positions_command :: "env \<Rightarrow> state \<Rightarrow> uid \<Rightarrow> outcome" where
  "positions_command e s u =
     (if positions_of s u = [] then finish s [Reply NoOpenPositions]
      else case user_pairs s u of
          None \<Rightarrow> finish s [Reply NoPairForPnL]
        | Some current_pair \<Rightarrow>
            (let filtered_positions = filter (\<lambda>pos. pair pos = current_pair) (positions_of s u)
             in if filtered_positions = [] then finish s [Reply NoPositionsForPair]
                else (let current_price = get_price (get_dexscreener_info e u current_pair)
                      in case pnl_loop e current_price filtered_positions [] (Fin 0) of
                           Inl x \<Rightarrow> raise s [] x
                         | Inr (rows, total_pnl) \<Rightarrow>
                             finish s [Reply (PositionsReport current_pair rows total_pnl)])))"

definition alert_command :: "env \<Rightarrow> state \<Rightarrow> uid \<Rightarrow> string list \<Rightarrow> outcome" where
  "alert_command e s u args =
     (case args of
        [] \<Rightarrow> finish s [Reply UsageAlert]
      | a # _ \<Rightarrow>
          (case parse_float e a of
             Some threshold \<Rightarrow>
               finish (s\<lparr>price_alerts := AList.update u threshold (price_alerts s)\<rparr>)
                 [Reply (AlertSet threshold)]
           | None \<Rightarrow> finish s [Reply InvalidPrice]))"

definition buy_command :: "env \<Rightarrow> state \<Rightarrow> uid \<Rightarrow> outcome" where
  "buy_command e s u =
     (case user_wallets s u of
        None \<Rightarrow> finish s [Reply NoWalletBuy]
      | Some kp \<Rightarrow> finish s [Reply BuyMenu])"

definition sell_command :: "env \<Rightarrow> state \<Rightarrow> uid \<Rightarrow> outcome" where
  "sell_command e s u =
     (case user_wallets s u of
        None \<Rightarrow> finish s [Reply NoWalletSell]
      | Some kp \<Rightarrow> finish s [Reply SellMenu])"

definition handle_main_menu_callback :: "env \<Rightarrow> state \<Rightarrow> uid \<Rightarrow> string \<Rightarrow> outcome" where
  "handle_main_menu_callback e s u data =
     (if data = ''menu_connectwallet''
        then finish (set_flags s u (\<lambda>f. f\<lparr>awaiting_connectwallet := True\<rparr>)) [Reply AskPrivateKey]
      else if data = ''menu_setpair''
        then finish (set_flags s u (\<lambda>f. f\<lparr>awaiting_setpair := True\<rparr>)) [Reply AskPair]
      else if data = ''menu_buy'' then buy_command e s u
      else if data = ''menu_sell'' then sell_command e s u
      else if data = ''menu_balance'' then balance_command e s u
      else if data = ''menu_positions'' then positions_command e s u
      else if data = ''menu_alert''
        then finish (set_flags s u (\<lambda>f. f\<lparr>awaiting_alert := True\<rparr>)) [Reply AskAlertPrice]
      else finish s [])"

subsection \<open>Buying and selling\<close>

text \<open>
  The purchase itself, as written twice in the source (button and free text): the price
  is looked up first (0.0 only when the user has no pair, or when the returned dict has
  no \<open>price\<close> key), then the transaction is made; only the ok status appends a position.
\<close>

definition lookup_price :: "env \<Rightarrow> state \<Rightarrow> uid \<Rightarrow> pyfloat option" where
  "lookup_price e s u =
     (if user_pairs s u \<noteq> None
      then get_price_default (get_dexscreener_info e u (pair_or_empty s u))
      else Some (Fin 0))"

definition buy_steps :: "env \<Rightarrow> state \<Rightarrow> uid \<Rightarrow> pyfloat \<Rightarrow> keypair \<Rightarrow> outcome" where
  "buy_steps e s u amt user_kp =
     (let current_price = lookup_price e s u
      in case execute_buy_transaction e amt user_kp of
           (es, Inl x) \<Rightarrow> raise s es x
         | (es, Inr (TxError err)) \<Rightarrow> finish s (es @ [Reply (TxFailed err)])
         | (es, Inr (TxOk sig)) \<Rightarrow>
             (let pos = \<lparr>amount = amt, purchase_price = current_price, signature = sig,
                         timestamp = now e, pair = pair_or_empty s u\<rparr>;
                  s' = s\<lparr>positions := (positions s)(u \<mapsto> positions_of s u @ [pos])\<rparr>
              in finish s' (es @ [Reply (PurchaseExecuted amt sig (pubkey e user_kp))])))"

text \<open>A sale of a given amount: the transaction and a reply; no dictionary is written.\<close>

definition sell_steps :: "env \<Rightarrow> state \<Rightarrow> uid \<Rightarrow> pyfloat \<Rightarrow> keypair \<Rightarrow> outcome" where
  "sell_steps e s u amt user_kp =
     (case execute_sell_transaction e amt user_kp of
        (es, Inl x) \<Rightarrow> raise s es x
      | (es, Inr (TxError err)) \<Rightarrow> finish s (es @ [Reply (TxFailed err)])
      | (es, Inr (TxOk sig)) \<Rightarrow>
          finish s (es @ [Reply (SaleExecuted amt sig (pubkey e user_kp))]))"

text \<open>
  The built-in \<open>sum\<close> of floats: the integer 0 for no items; else the items are added
  to 0 from left to right, where \<open>0 + x\<close> is \<open>x\<close> and every further addition rounds.
  (From Python 3.12 on \<open>sum\<close> also carries a compensation of the rounding errors of a
  float sum; that is the same value whenever no addition rounds.)
\<close>

definition py_sum :: "env \<Rightarrow> pyfloat list \<Rightarrow> pyfloat" where
  "py_sum e xs = (case xs of [] \<Rightarrow> Fin 0 | x # rest \<Rightarrow> foldl (fadd (rnd e)) x rest)"

definition sell_all :: "env \<Rightarrow> state \<Rightarrow> uid \<Rightarrow> keypair \<Rightarrow> outcome" where
  "sell_all e s u user_kp =
     (let current_pair = pair_or_empty s u;
          total_amount =
            py_sum e (map amount (filter (\<lambda>pos. pair pos = current_pair) (positions_of s u)))
      in if feq total_amount (Fin 0) then finish s [Reply NothingToSell]
         else case execute_sell_transaction e total_amount user_kp of
             (es, Inl x) \<Rightarrow> raise s es x
           | (es, Inr (TxError err)) \<Rightarrow> finish s (es @ [Reply (TxFailed err)])
           | (es, Inr (TxOk sig)) \<Rightarrow>
               (let s' = s\<lparr>positions := (positions s)
                            (u \<mapsto> filter (\<lambda>pos. pair pos \<noteq> current_pair) (positions_of s u))\<rparr>
                in finish s'
                     (es @ [Reply (SellAllExecuted total_amount sig (pubkey e user_kp))])))"

text \<open>\<open>float(data.split("_")[1])\<close>: IndexError is not possible after \<open>startswith\<close>, a
  text that is no number raises ValueError.\<close>

definition button_amount :: "env \<Rightarrow> string \<Rightarrow> pyfloat option" where
  "button_amount e data = (case split_1 data of None \<Rightarrow> None | Some t \<Rightarrow> parse_float e t)"

definition handle_buy_sell_callback :: "env \<Rightarrow> state \<Rightarrow> uid \<Rightarrow> string \<Rightarrow> outcome" where
  "handle_buy_sell_callback e s u data =
     (case user_wallets s u of
        None \<Rightarrow> finish s [Reply NoWalletOperate]
      | Some user_kp \<Rightarrow>
          if startswith data ''buy_'' then
            (if data = ''buy_custom''
             then finish (set_flags s u (\<lambda>f. f\<lparr>awaiting_buy_custom := True\<rparr>))
                    [Reply AskBuyAmount]
             else case button_amount e data of
                 None \<Rightarrow> raise s [] ValueError
               | Some amt \<Rightarrow> buy_steps e s u amt user_kp)
          else if startswith data ''sell_'' then
            (if data = ''sell_custom''
             then finish (set_flags s u (\<lambda>f. f\<lparr>awaiting_sell_custom := True\<rparr>))
                    [Reply AskSellAmount]
             else if data = ''sell_all'' then sell_all e s u user_kp
             else case button_amount e data of
                 None \<Rightarrow> raise s [] ValueError
               | Some amt \<Rightarrow> sell_steps e s u amt user_kp)
          else finish s [])"

subsection \<open>Free text\<close>

text \<open>\<open>except ValueError\<close> around the body of a custom buy or sell: a ValueError
  raised anywhere in it becomes the reply given, what was done before stays done.\<close>

definition except_ValueError :: "reply \<Rightarrow> outcome \<Rightarrow> outcome" where
  "except_ValueError r oc =
     (if raised oc = Some ValueError
      then oc\<lparr>out := out oc @ [Reply r], raised := None\<rparr> else oc)"

text \<open>
  The flags are tested in a fixed order; the first one set is cleared and decides what
  the text means. \<open>user_wallets[user_id]\<close> raises KeyError without a wallet.
\<close>

definition message_handler :: "env \<Rightarrow> state \<Rightarrow> uid \<Rightarrow> string \<Rightarrow> outcome" where
  "message_handler e s u text =
     (let user_text = strip text; ud = user_data s u in
      if awaiting_connectwallet ud then
        (let s1 = set_flags s u (\<lambda>f. f\<lparr>awaiting_connectwallet := False\<rparr>)
         in case keypair_from_base58 e user_text of
              Inr new_kp \<Rightarrow>
                (let s2 = s1\<lparr>user_wallets := (user_wallets s1)(u \<mapsto> new_kp)\<rparr>
                 in after [Reply (WalletConnected (take 7 (pubkey e new_kp)))]
                      (start_command e s2 u))
            | Inl msg \<Rightarrow> after [Reply (WalletError msg)] (start_command e s1 u))
      else if awaiting_setpair ud then
        (let s1 = set_flags s u (\<lambda>f. f\<lparr>awaiting_setpair := False\<rparr>);
             s2 = s1\<lparr>user_pairs := (user_pairs s1)(u \<mapsto> user_text)\<rparr>
         in after [Reply (PairSet user_text)] (start_command e s2 u))
      else if awaiting_alert ud then
        (let s1 = set_flags s u (\<lambda>f. f\<lparr>awaiting_alert := False\<rparr>)
         in case parse_float e user_text of
              Some threshold \<Rightarrow>
                finish (s1\<lparr>price_alerts := AList.update u threshold (price_alerts s1)\<rparr>)
                  [Reply (AlertSet threshold)]
            | None \<Rightarrow> finish s1 [Reply InvalidPrice])
      else if awaiting_buy_custom ud then
        (let s1 = set_flags s u (\<lambda>f. f\<lparr>awaiting_buy_custom := False\<rparr>)
         in except_ValueError InvalidAmountBuy
              (case parse_float e user_text of
                 None \<Rightarrow> raise s1 [] ValueError
               | Some amt \<Rightarrow>
                   (case user_wallets s1 u of
                      None \<Rightarrow> raise s1 [] KeyError
                    | Some kp \<Rightarrow> buy_steps e s1 u amt kp)))
      else if awaiting_sell_custom ud then
        (let s1 = set_flags s u (\<lambda>f. f\<lparr>awaiting_sell_custom := False\<rparr>)
         in except_ValueError InvalidAmountSell
              (case parse_float e user_text of
                 None \<Rightarrow> raise s1 [] ValueError
               | Some amt \<Rightarrow>
                   (case user_wallets s1 u of
                      None \<Rightarrow> raise s1 [] KeyError
                    | Some kp \<Rightarrow> sell_steps e s1 u amt kp)))
      else finish s [])"

subsection \<open>The alert job\<close>

text \<open>One pass of \<open>price_watcher\<close> over \<open>list(price_alerts.items())\<close>.\<close>

definition alert_for :: "env \<Rightarrow> state \<Rightarrow> uid \<Rightarrow> pyfloat \<Rightarrow> effect list" where
  "alert_for e s u threshold =
     (case user_pairs s u of
        None \<Rightarrow> []
      | Some pair_id \<Rightarrow>
          (case get_price (get_dexscreener_info e u pair_id) of
             Some price \<Rightarrow>
               if truthy price \<and> fge price threshold
               then [Send u (AlertFired pair_id price threshold)] else []
           | None \<Rightarrow> []))"

fun price_watcher_loop :: "env \<Rightarrow> state \<Rightarrow> (uid \<times> pyfloat) list \<Rightarrow> effect list" where
  "price_watcher_loop e s [] = []"
| "price_watcher_loop e s ((u, threshold) # rest) =
     alert_for e s u threshold @ price_watcher_loop e s rest"

definition price_watcher :: "env \<Rightarrow> state \<Rightarrow> outcome" where
  "price_watcher e s = finish s (price_watcher_loop e s (price_alerts s))"

section \<open>The application\<close>

datatype event =
    Command uid string "string list"
  | Button uid string
  | FreeText uid string
  | Tick

text \<open>
  The handlers registered in \<open>main\<close>; an update that no handler matches is dropped.
  A command carries its name as the command handlers compare it (lowered, without the
  slash) and its arguments; a button carries its callback data; \<open>Tick\<close> is one run of
  the alert job. Each event is handled to its end before the next one.
\<close>

definition dispatch :: "env \<Rightarrow> state \<Rightarrow> event \<Rightarrow> outcome" where
  "dispatch e s ev =
     (case ev of
        Command u name args \<Rightarrow>
          (if name = ''start'' then start_command e s u
           else if name = ''connectwallet'' then connectwallet_command e s u args
           else if name = ''setpair'' then setpair_command e s u args
           else if name = ''price'' then price_command e s u
           else if name = ''buy'' then buy_command e s u
           else if name = ''sell'' then sell_command e s u
           else if name = ''balance'' then balance_command e s u
           else if name = ''alert'' then alert_command e s u args
           else if name = ''positions'' then positions_command e s u
           else finish s [])
      | Button u data \<Rightarrow>
          (if startswith data ''menu_'' then handle_main_menu_callback e s u data
           else if startswith data ''buy_'' \<or> startswith data ''sell_''
             then handle_buy_sell_callback e s u data
           else finish s [])
      | FreeText u text \<Rightarrow> message_handler e s u text
      | Tick \<Rightarrow> price_watcher e s)"

text \<open>The states the program can be in: from the empty dictionaries, any events in
  any environments.\<close>

inductive reachable :: "state \<Rightarrow> bool" where
  reach_init: "reachable init_state"
| reach_step: "reachable s \<Longrightarrow> reachable (st (dispatch e s ev))"

section \<open>Example inputs\<close>

text \<open>
  Concrete environments and states on which the theorems below are instantiated. In
  \<open>env_ok\<close> arithmetic is exact, the oracle quotes 2.5 for every pair and the backend
  accepts every transaction; in \<open>env_fail\<close> the backend rejects it.
\<close>

definition kp1 :: keypair where
  "kp1 = Keypair ''key''"

definition env_ok :: env where
  "env_ok = \<lparr>rnd = Fin,
     parse_float = (\<lambda>t. if t = ''0.5'' then Some (Fin (1/2))
                         else if t = ''2.5'' then Some (Fin (5/2))
                         else if t = ''10'' then Some (Fin 10) else None),
     keypair_from_base58 = (\<lambda>t. if t = ''key'' then Inr (Keypair ''key'') else Inl ''bad key''),
     pubkey = (\<lambda>kp. case kp of Keypair k \<Rightarrow> k),
     http_get_json =
       (\<lambda>u p. HttpJson (JObj [(''pairs'', JArr [JObj [(''priceUsd'', JStr ''2.5'')]])])),
     transfer = (\<lambda>kp l. None),
     rpc_send = (\<lambda>kp l. Inr ''sig''),
     get_balance = (\<lambda>kp. Inr 0),
     now = Fin 100\<rparr>"

definition env_fail :: env where
  "env_fail = env_ok\<lparr>rpc_send := (\<lambda>kp l. Inl ''Transfer failed: Insufficient funds'')\<rparr>"

definition s_wallet :: state where
  "s_wallet = init_state\<lparr>user_wallets := [7 \<mapsto> kp1], user_pairs := [7 \<mapsto> ''X'']\<rparr>"

definition pos_x :: position where
  "pos_x = \<lparr>amount = Fin 3, purchase_price = Some (Fin 2), signature = ''s1'',
            timestamp = Fin 50, pair = ''X''\<rparr>"

definition pos_y :: position where
  "pos_y = \<lparr>amount = Fin 2, purchase_price = Some (Fin 2), signature = ''s2'',
            timestamp = Fin 60, pair = ''Y''\<rparr>"

definition s_positions :: state where
  "s_positions = s_wallet\<lparr>positions := [7 \<mapsto> [pos_x, pos_y]]\<rparr>"

text \<open>Two positions in the pair X, of 3 and of 4, with one in the pair Y between them.\<close>

definition pos_x4 :: position where
  "pos_x4 = \<lparr>amount = Fin 4, purchase_price = Some (Fin 3), signature = ''s3'',
             timestamp = Fin 70, pair = ''X''\<rparr>"

definition s_three_positions :: state where
  "s_three_positions = s_wallet\<lparr>positions := [7 \<mapsto> [pos_x, pos_y, pos_x4]]\<rparr>"

text \<open>
  Oracles: one that cannot be reached, one whose pair has no \<open>priceUsd\<close>, and one that
  quotes a given text. A state with one alert of user 7.
\<close>


definition env_down :: env where
  "env_down = env_ok\<lparr>http_get_json := (\<lambda>u p. HttpFails)\<rparr>"

definition env_noprice :: env where
  "env_noprice = env_ok\<lparr>http_get_json :=
     (\<lambda>u p. HttpJson (JObj [(''pairs'', JArr [JObj [(''icon'', JStr ''i.png'')]])]))\<rparr>"

definition env_quote :: "string \<Rightarrow> env" where
  "env_quote t = env_ok\<lparr>
     http_get_json := (\<lambda>u p. HttpJson (JObj [(''pairs'', JArr [JObj [(''priceUsd'', JStr t)]])])),
     parse_float := (\<lambda>t. if t = ''0'' then Some (Fin 0) else if t = ''9'' then Some (Fin 9)
                          else if t = ''11'' then Some (Fin 11) else None)\<rparr>"

definition s_alert :: "pyfloat \<Rightarrow> state" where
  "s_alert threshold = s_wallet\<lparr>price_alerts := [(7, threshold)]\<rparr>"

section \<open>Observations on the flags\<close>

text \<open>
  The number of flags of a user that are set, the relation between the flags before and
  after an event that clears none, and the flags after a free-text reply: the first flag
  set, in the order in which \<open>message_handler\<close> tests them, is cleared.
\<close>

definition pending :: "flags \<Rightarrow> nat" where
  "pending f = length (filter id [awaiting_connectwallet f, awaiting_setpair f,
     awaiting_alert f, awaiting_buy_custom f, awaiting_sell_custom f])"

definition keeps :: "flags \<Rightarrow> flags \<Rightarrow> bool" where
  "keeps f g \<longleftrightarrow>
     (awaiting_connectwallet f \<longrightarrow> awaiting_connectwallet g) \<and>
     (awaiting_setpair f \<longrightarrow> awaiting_setpair g) \<and>
     (awaiting_alert f \<longrightarrow> awaiting_alert g) \<and>
     (awaiting_buy_custom f \<longrightarrow> awaiting_buy_custom g) \<and>
     (awaiting_sell_custom f \<longrightarrow> awaiting_sell_custom g)"

definition clear_first :: "flags \<Rightarrow> flags" where
  "clear_first ud =
     (if awaiting_connectwallet ud then ud\<lparr>awaiting_connectwallet := False\<rparr>
      else if awaiting_setpair ud then ud\<lparr>awaiting_setpair := False\<rparr>
      else if awaiting_alert ud then ud\<lparr>awaiting_alert := False\<rparr>
      else if awaiting_buy_custom ud then ud\<lparr>awaiting_buy_custom := False\<rparr>
      else if awaiting_sell_custom ud then ud\<lparr>awaiting_sell_custom := False\<rparr>
      else ud)"

text \<open>
  States reached from the start: user 7 asked for the wallet prompt, then also for the
  pair prompt; user 7 connected a wallet and asked for a custom buy.
\<close>

definition s_one_prompt :: state where
  "s_one_prompt = st (dispatch env_ok init_state (Button 7 ''menu_connectwallet''))"

definition s_two_prompts :: state where
  "s_two_prompts = st (dispatch env_ok s_one_prompt (Button 7 ''menu_setpair''))"

definition s_custom_buy :: state where
  "s_custom_buy =
     st (dispatch env_ok
          (st (dispatch env_ok init_state (Command 7 ''connectwallet'' [''key''])))
          (Button 7 ''buy_custom''))"

section \<open>Properties\<close>

subsection \<open>Transactions\<close>

text \<open>
  Claim C8. When sending the transaction raises, a buy and a sell both return the error
  status; the error is the insufficient-funds one exactly when the lowered text of the
  exception contains "insufficient funds", and otherwise the backend error with the text
  of the exception. The backend was called once: there is no retry.
\<close>

theorem failure_classification:
  assumes "lamports e amt = Inr l" and "transfer e kp l = None" and "rpc_send e kp l = Inl msg"
  shows "execute_buy_transaction e amt kp =
           ([Rpc kp l],
            Inr (TxError (if contains (lower msg) ''insufficient funds''
                          then InsufficientFunds Purchase else BackendError Purchase msg))) \<and>
         execute_sell_transaction e amt kp =
           ([Rpc kp l],
            Inr (TxError (if contains (lower msg) ''insufficient funds''
                          then InsufficientFunds Sale else BackendError Sale msg)))"
  using assms
  by (simp add: execute_buy_transaction_def execute_sell_transaction_def
      execute_transaction_def classify_def)

theorem failure_classification_witness:
  "execute_buy_transaction env_fail (Fin (1/2)) kp1 =
     ([Rpc kp1 500000000], Inr (TxError (InsufficientFunds Purchase))) \<and>
   execute_sell_transaction env_fail (Fin (1/2)) kp1 =
     ([Rpc kp1 500000000], Inr (TxError (InsufficientFunds Sale)))"
proof -
  have l: "lamports env_fail (Fin (1/2)) = Inr 500000000"
    by (simp add: lamports_def env_fail_def env_ok_def)
  have t: "transfer env_fail kp1 500000000 = None"
    by (simp add: env_fail_def env_ok_def)
  have r: "rpc_send env_fail kp1 500000000 = Inl ''Transfer failed: Insufficient funds''"
    by (simp add: env_fail_def env_ok_def)
  have c: "contains (lower ''Transfer failed: Insufficient funds'') ''insufficient funds''"
    by code_simp
  show ?thesis
    using failure_classification [OF l t r] c by simp
qed

subsection \<open>Buying and selling\<close>

lemma buy_steps_cases:
  assumes "execute_buy_transaction e amt kp = (es, r)"
  shows "buy_steps e s u amt kp =
     (case r of
        Inl x \<Rightarrow> raise s es x
      | Inr (TxError err) \<Rightarrow> finish s (es @ [Reply (TxFailed err)])
      | Inr (TxOk sig) \<Rightarrow>
          finish (s\<lparr>positions := (positions s)(u \<mapsto> positions_of s u @
                     [\<lparr>amount = amt, purchase_price = lookup_price e s u, signature = sig,
                       timestamp = now e, pair = pair_or_empty s u\<rparr>])\<rparr>)
            (es @ [Reply (PurchaseExecuted amt sig (pubkey e kp))]))"
  using assms by (simp add: buy_steps_def Let_def split: sum.splits tx_result.splits)

lemma set_flags_simps [simp]:
  "user_pairs (set_flags s u f) = user_pairs s"
  "price_alerts (set_flags s u f) = price_alerts s"
  "user_wallets (set_flags s u f) = user_wallets s"
  "positions (set_flags s u f) = positions s"
  "user_data (set_flags s u f) = (user_data s)(u := f (user_data s u))"
  by (simp_all add: set_flags_def)

lemma lookup_price_set_flags [simp]: "lookup_price e (set_flags s u f) v = lookup_price e s v"
  by (simp add: lookup_price_def pair_or_empty_def)

lemma pair_or_empty_set_flags [simp]: "pair_or_empty (set_flags s u f) v = pair_or_empty s v"
  by (simp add: pair_or_empty_def)

lemma positions_of_set_flags [simp]: "positions_of (set_flags s u f) v = positions_of s v"
  by (simp add: positions_of_def)

lemma except_ValueError_finish [simp]: "except_ValueError r (finish s es) = finish s es"
  by (simp add: except_ValueError_def finish_def)

lemma st_except_ValueError [simp]: "st (except_ValueError r oc) = st oc"
  by (simp add: except_ValueError_def)

lemma st_finish [simp]: "st (finish s es) = s" and st_raise [simp]: "st (raise s es x) = s"
  by (simp_all add: finish_def raise_def)

text \<open>
  Claim C1. A buy, by a preset button or by a free-text amount, of a user with a wallet:
  when the transaction returns the error status the user is sent that error and the state
  is the one before (for free text, with the flag cleared); when it returns ok, one
  position is appended to the user's list, with the amount, the price looked up before
  the transaction, the signature, the time and the user's pair (the empty text when
  none is set). When building the instruction raises, no position is appended either.
\<close>

theorem buy_appends_on_success_only:
  assumes wallet: "user_wallets s u = Some kp"
    and tx: "execute_buy_transaction e amt kp = (es, r)"
  shows
    "(startswith data ''buy_'' \<and> data \<noteq> ''buy_custom'' \<and> button_amount e data = Some amt \<longrightarrow>
        (\<forall>err. r = Inr (TxError err) \<longrightarrow>
           handle_buy_sell_callback e s u data = finish s (es @ [Reply (TxFailed err)])) \<and>
        (\<forall>sig. r = Inr (TxOk sig) \<longrightarrow>
           handle_buy_sell_callback e s u data =
             finish (s\<lparr>positions := (positions s)(u \<mapsto> positions_of s u @
                        [\<lparr>amount = amt, purchase_price = lookup_price e s u, signature = sig,
                          timestamp = now e, pair = pair_or_empty s u\<rparr>])\<rparr>)
               (es @ [Reply (PurchaseExecuted amt sig (pubkey e kp))])) \<and>
        (\<forall>x. r = Inl x \<longrightarrow> st (handle_buy_sell_callback e s u data) = s)) \<and>
     (\<not> awaiting_connectwallet (user_data s u) \<and> \<not> awaiting_setpair (user_data s u) \<and>
      \<not> awaiting_alert (user_data s u) \<and> awaiting_buy_custom (user_data s u) \<and>
      parse_float e (strip text) = Some amt \<longrightarrow>
        (\<forall>err. r = Inr (TxError err) \<longrightarrow>
           message_handler e s u text =
             finish (set_flags s u (\<lambda>f. f\<lparr>awaiting_buy_custom := False\<rparr>))
               (es @ [Reply (TxFailed err)])) \<and>
        (\<forall>sig. r = Inr (TxOk sig) \<longrightarrow>
           message_handler e s u text =
             finish (set_flags s u (\<lambda>f. f\<lparr>awaiting_buy_custom := False\<rparr>)
                      \<lparr>positions := (positions s)(u \<mapsto> positions_of s u @
                        [\<lparr>amount = amt, purchase_price = lookup_price e s u, signature = sig,
                          timestamp = now e, pair = pair_or_empty s u\<rparr>])\<rparr>)
               (es @ [Reply (PurchaseExecuted amt sig (pubkey e kp))])) \<and>
        (\<forall>x. r = Inl x \<longrightarrow> positions (st (message_handler e s u text)) = positions s))"
proof -
  have button: "handle_buy_sell_callback e s u data = buy_steps e s u amt kp"
    if "startswith data ''buy_''" "data \<noteq> ''buy_custom''" "button_amount e data = Some amt"
    using that wallet by (simp add: handle_buy_sell_callback_def)
  have free: "message_handler e s u text =
      except_ValueError InvalidAmountBuy
        (buy_steps e (set_flags s u (\<lambda>f. f\<lparr>awaiting_buy_custom := False\<rparr>)) u amt kp)"
    if "\<not> awaiting_connectwallet (user_data s u)" "\<not> awaiting_setpair (user_data s u)"
      "\<not> awaiting_alert (user_data s u)" "awaiting_buy_custom (user_data s u)"
      "parse_float e (strip text) = Some amt"
    using that wallet by (simp add: message_handler_def Let_def)
  show ?thesis
    using button free buy_steps_cases [OF tx]
    by (auto simp: )
qed


lemma env_ok_simps [simp]:
  "rnd env_ok = Fin" "transfer env_ok kp l = None" "rpc_send env_ok kp l = Inr ''sig''"
  "now env_ok = Fin 100" "pubkey env_ok (Keypair k) = k"
  "http_get_json env_ok u p = HttpJson (JObj [(''pairs'', JArr [JObj [(''priceUsd'', JStr ''2.5'')]])])"
  by (simp_all add: env_ok_def)

lemma env_ok_parse [simp]:
  "parse_float env_ok ''0.5'' = Some (Fin (1/2))"
  "parse_float env_ok ''2.5'' = Some (Fin (5/2))"
  "parse_float env_ok ''10'' = Some (Fin 10)"
  by (simp_all add: env_ok_def)

lemma env_fail_simps [simp]:
  "rnd env_fail = Fin" "transfer env_fail kp l = None"
  "rpc_send env_fail kp l = Inl ''Transfer failed: Insufficient funds''"
  "now env_fail = Fin 100" "pubkey env_fail = pubkey env_ok"
  "parse_float env_fail = parse_float env_ok"
  "http_get_json env_fail = http_get_json env_ok"
  by (simp_all add: env_fail_def env_ok_def)

lemma classify_example [simp]:
  "classify sd ''Transfer failed: Insufficient funds'' = InsufficientFunds sd"
proof -
  have "contains (lower ''Transfer failed: Insufficient funds'') ''insufficient funds''"
    by code_simp
  then show ?thesis by (simp add: classify_def)
qed

lemma s_wallet_simps [simp]:
  "user_wallets s_wallet 7 = Some kp1" "user_pairs s_wallet 7 = Some ''X''"
  "positions s_wallet = Map.empty" "user_data s_wallet = (\<lambda>_. no_flags)"
  by (simp_all add: s_wallet_def init_state_def)

lemma info_env_ok [simp]: "get_dexscreener_info env_ok u p = Info (Some (Fin (5/2))) None"
  by (simp add: get_dexscreener_info_def json_get_def)

lemma info_env_fail [simp]: "get_dexscreener_info env_fail u p = Info (Some (Fin (5/2))) None"
  by (simp add: get_dexscreener_info_def json_get_def)

theorem buy_appends_on_success_only_witness:
  "handle_buy_sell_callback env_ok s_wallet 7 ''buy_0.5'' =
     finish (s_wallet\<lparr>positions := [7 \<mapsto>
               [\<lparr>amount = Fin (1/2), purchase_price = Some (Fin (5/2)), signature = ''sig'',
                 timestamp = Fin 100, pair = ''X''\<rparr>]]\<rparr>)
       [Rpc kp1 500000000, Reply (PurchaseExecuted (Fin (1/2)) ''sig'' ''key'')] \<and>
   handle_buy_sell_callback env_fail s_wallet 7 ''buy_0.5'' =
     finish s_wallet [Rpc kp1 500000000, Reply (TxFailed (InsufficientFunds Purchase))] \<and>
   message_handler env_fail
       (set_flags s_wallet 7 (\<lambda>f. f\<lparr>awaiting_buy_custom := True\<rparr>)) 7 '' 0.5 '' =
     finish (set_flags (set_flags s_wallet 7 (\<lambda>f. f\<lparr>awaiting_buy_custom := True\<rparr>)) 7
               (\<lambda>f. f\<lparr>awaiting_buy_custom := False\<rparr>))
       [Rpc kp1 500000000, Reply (TxFailed (InsufficientFunds Purchase))]"
proof -
  have ok: "execute_buy_transaction env_ok (Fin (1/2)) kp1 =
      ([Rpc kp1 500000000], Inr (TxOk ''sig''))"
    by (simp add: execute_buy_transaction_def execute_transaction_def lamports_def)
  have fail: "execute_buy_transaction env_fail (Fin (1/2)) kp1 =
      ([Rpc kp1 500000000], Inr (TxError (InsufficientFunds Purchase)))"
    by (simp add: execute_buy_transaction_def execute_transaction_def lamports_def)
  have amount: "button_amount env_ok ''buy_0.5'' = Some (Fin (1/2))"
    "button_amount env_fail ''buy_0.5'' = Some (Fin (1/2))"
    by (simp_all add: button_amount_def split_1_def)
  have stripped: "strip '' 0.5 '' = ''0.5''"
    by code_simp
  have price: "lookup_price env_ok s_wallet 7 = Some (Fin (5/2))"
    by (simp add: lookup_price_def)
  have w: "user_wallets (set_flags s_wallet 7 (\<lambda>f. f\<lparr>awaiting_buy_custom := True\<rparr>)) 7 = Some kp1"
    by simp
  show ?thesis
    using buy_appends_on_success_only [OF s_wallet_simps(1) ok, of "''buy_0.5''" "''x''"]
      buy_appends_on_success_only [OF s_wallet_simps(1) fail, of "''buy_0.5''" "''x''"]
      buy_appends_on_success_only [OF w fail, of "''buy_0.5''" "'' 0.5 ''"]
    by (simp add: amount stripped price pair_or_empty_def positions_of_def kp1_def no_flags_def)
qed

lemma sell_not_buy: "startswith data ''sell_'' \<Longrightarrow> \<not> startswith data ''buy_''"
  by (cases data) auto

lemma sell_steps_st [simp]: "st (sell_steps e s u amt kp) = s"
  by (simp add: sell_steps_def split: prod.splits sum.splits tx_result.splits)

text \<open>
  Claim C9. A sale of a fixed amount (a button other than custom and sell-all) or of a
  free-text amount leaves the state as it was, whatever the backend answers; for free
  text only the flag is cleared. No position is added, removed or changed.
\<close>

theorem sell_leaves_positions:
  "(startswith data ''sell_'' \<and> data \<noteq> ''sell_custom'' \<and> data \<noteq> ''sell_all'' \<longrightarrow>
      st (handle_buy_sell_callback e s u data) = s) \<and>
   (\<not> awaiting_connectwallet (user_data s u) \<and> \<not> awaiting_setpair (user_data s u) \<and>
    \<not> awaiting_alert (user_data s u) \<and> \<not> awaiting_buy_custom (user_data s u) \<and>
    awaiting_sell_custom (user_data s u) \<longrightarrow>
      st (message_handler e s u text) = set_flags s u (\<lambda>f. f\<lparr>awaiting_sell_custom := False\<rparr>) \<and>
      positions (st (message_handler e s u text)) = positions s)"
proof -
  have button: "st (handle_buy_sell_callback e s u data) = s"
    if "startswith data ''sell_''" "data \<noteq> ''sell_custom''" "data \<noteq> ''sell_all''"
    using that sell_not_buy [OF that(1)]
    by (simp add: handle_buy_sell_callback_def split: option.splits)
  have free: "st (message_handler e s u text) =
      set_flags s u (\<lambda>f. f\<lparr>awaiting_sell_custom := False\<rparr>)"
    if "\<not> awaiting_connectwallet (user_data s u)" "\<not> awaiting_setpair (user_data s u)"
      "\<not> awaiting_alert (user_data s u)" "\<not> awaiting_buy_custom (user_data s u)"
      "awaiting_sell_custom (user_data s u)"
    using that by (simp add: message_handler_def Let_def split: option.splits)
  show ?thesis
    using button free by simp
qed

theorem sell_leaves_positions_witness:
  "st (handle_buy_sell_callback env_ok s_positions 7 ''sell_10'') = s_positions \<and>
   st (handle_buy_sell_callback env_fail s_positions 7 ''sell_10'') = s_positions \<and>
   positions (st (message_handler env_ok
       (set_flags s_positions 7 (\<lambda>f. f\<lparr>awaiting_sell_custom := True\<rparr>)) 7 ''10'')) =
     [7 \<mapsto> [pos_x, pos_y]]"
  using sell_leaves_positions [of "''sell_10''" env_ok s_positions 7 "''x''"]
    sell_leaves_positions [of "''sell_10''" env_fail s_positions 7 "''x''"]
    sell_leaves_positions [of "''x''" env_ok
      "set_flags s_positions 7 (\<lambda>f. f\<lparr>awaiting_sell_custom := True\<rparr>)" 7 "''10''"]
  by (simp add: s_positions_def no_flags_def)

text \<open>
  Additions that do not round give the exact sum: \<open>a\<close> plus the items, when each
  partial sum is a double.
\<close>

lemma foldl_fadd_exact:
  assumes "\<forall>k. 1 \<le> k \<and> k \<le> length rs \<longrightarrow>
             rd (a + sum_list (take k rs)) = Fin (a + sum_list (take k rs))"
  shows "foldl (fadd rd) (Fin a) (map Fin rs) = Fin (a + sum_list rs)"
  using assms
proof (induction rs arbitrary: a)
  case Nil
  show ?case by simp
next
  case (Cons r rs)
  have first: "rd (a + r) = Fin (a + r)"
    using Cons.prems [rule_format, of 1] by simp
  have rest: "\<forall>k. 1 \<le> k \<and> k \<le> length rs \<longrightarrow>
      rd ((a + r) + sum_list (take k rs)) = Fin ((a + r) + sum_list (take k rs))"
  proof (intro allI impI)
    fix k
    assume k: "1 \<le> k \<and> k \<le> length rs"
    then show "rd ((a + r) + sum_list (take k rs)) = Fin ((a + r) + sum_list (take k rs))"
      using Cons.prems [rule_format, of "Suc k"] by (simp add: add.assoc)
  qed
  show ?case
    using Cons.IH [OF rest] first by (simp add: add.assoc)
qed

lemma py_sum_exact:
  assumes "\<forall>k. 2 \<le> k \<and> k \<le> length rs \<longrightarrow>
             rnd e (sum_list (take k rs)) = Fin (sum_list (take k rs))"
  shows "py_sum e (map Fin rs) = Fin (sum_list rs)"
proof (cases rs)
  case Nil
  then show ?thesis by (simp add: py_sum_def)
next
  case (Cons r rest)
  have "\<forall>k. 1 \<le> k \<and> k \<le> length rest \<longrightarrow>
      rnd e (r + sum_list (take k rest)) = Fin (r + sum_list (take k rest))"
  proof (intro allI impI)
    fix k
    assume "1 \<le> k \<and> k \<le> length rest"
    then show "rnd e (r + sum_list (take k rest)) = Fin (r + sum_list (take k rest))"
      using assms [rule_format, of "Suc k"] Cons by simp
  qed
  then show ?thesis
    using Cons by (simp add: py_sum_def foldl_fadd_exact)
qed


lemma s_positions_simps [simp]:
  "user_wallets s_positions 7 = Some kp1" "user_pairs s_positions 7 = Some ''X''"
  "positions s_positions = [7 \<mapsto> [pos_x, pos_y]]"
  by (simp_all add: s_positions_def)

lemma s_three_positions_simps [simp]:
  "user_wallets s_three_positions 7 = Some kp1" "user_pairs s_three_positions 7 = Some ''X''"
  "positions s_three_positions = [7 \<mapsto> [pos_x, pos_y, pos_x4]]"
  by (simp_all add: s_three_positions_def)


subsection \<open>Prices\<close>

text \<open>
  Claim C4, at a failing input. User 7 has the pair X and a position in it, and the oracle
  cannot be reached. \<open>positions_command\<close> subtracts from the missing price: it raises
  TypeError and sends nothing, where the claim expects a reply that there is no price.
  On the same input \<open>price_command\<close> tests the price and replies that it could not be
  retrieved.
\<close>

theorem positions_without_price:
  "positions_command env_down s_positions 7 = raise s_positions [] TypeError \<and>
   price_command env_down s_positions 7 = finish s_positions [Reply PriceUnavailable]"
  by (simp add: positions_command_def price_command_def env_down_def get_dexscreener_info_def
      positions_of_def pos_x_def pos_y_def)

text \<open>
  Claim C5, at a failing input. User 7 has the pair X, and the oracle's answer has a pair
  with no \<open>priceUsd\<close>: the dict returned has the key \<open>price\<close> holding None, so the
  default 0.0 of \<open>.get("price", 0.0)\<close> is not used and the position records None as
  its purchase price, where the claim expects 0.0. (Without a pair, and with an oracle
  that cannot be reached, the price looked up is 0.0.)
\<close>

theorem buy_records_no_price:
  "lookup_price env_noprice init_state 7 = Some (Fin 0) \<and>
   lookup_price env_down s_wallet 7 = Some (Fin 0) \<and>
   lookup_price env_noprice s_wallet 7 = None \<and>
   handle_buy_sell_callback env_noprice s_wallet 7 ''buy_0.5'' =
     finish (s_wallet\<lparr>positions := [7 \<mapsto>
               [\<lparr>amount = Fin (1/2), purchase_price = None, signature = ''sig'',
                 timestamp = Fin 100, pair = ''X''\<rparr>]]\<rparr>)
       [Rpc kp1 500000000, Reply (PurchaseExecuted (Fin (1/2)) ''sig'' ''key'')]"
  by (simp add: handle_buy_sell_callback_def button_amount_def split_1_def env_noprice_def
      env_ok_def buy_steps_def lookup_price_def pair_or_empty_def positions_of_def
      get_dexscreener_info_def json_get_def execute_buy_transaction_def
      execute_transaction_def lamports_def kp1_def env_down_def init_state_def)

lemma set_price_watcher_loop:
  "set (price_watcher_loop e s alerts) = (\<Union>(u, th) \<in> set alerts. set (alert_for e s u th))"
  by (induction alerts) auto

subsection \<open>Alerts\<close>

lemma alert_for_mem:
  "x \<in> set (alert_for e s u th) \<longleftrightarrow>
     (\<exists>pair_id price. user_pairs s u = Some pair_id \<and>
        get_price (get_dexscreener_info e u pair_id) = Some price \<and>
        truthy price \<and> fge price th \<and> x = Send u (AlertFired pair_id price th))"
  by (auto simp: alert_for_def split: option.splits)

lemma price_watcher_loop_mem:
  "x \<in> set (price_watcher_loop e s alerts) \<longleftrightarrow>
     (\<exists>u th. (u, th) \<in> set alerts \<and> x \<in> set (alert_for e s u th))"
proof (induction alerts)
  case Nil
  then show ?case by simp
next
  case (Cons a alerts)
  obtain v t where a: "a = (v, t)" by (cases a)
  show ?case
    unfolding a using Cons.IH by (simp; blast)
qed

text \<open>
  Claim C6, amended. In one pass of the alert job a message is sent to a user exactly
  when the user has an alert threshold and a pair, a price was fetched for the pair, the
  price is not zero, and price >= threshold. The job leaves the state as it was, so
  nothing remembers that an alert fired: with the threshold 10 and the prices 9, 11, 11
  the second and the third pass both send.
\<close>

theorem alert_fires_when_nonzero_and_reached:
  "(Send u m \<in> set (out (price_watcher e s)) \<longleftrightarrow>
      (\<exists>threshold pair_id price.
          (u, threshold) \<in> set (price_alerts s) \<and> user_pairs s u = Some pair_id \<and>
          get_price (get_dexscreener_info e u pair_id) = Some price \<and>
          truthy price \<and> fge price threshold \<and> m = AlertFired pair_id price threshold)) \<and>
   st (price_watcher e s) = s"
proof -
  have "out (price_watcher e s) = price_watcher_loop e s (price_alerts s)"
    by (simp add: price_watcher_def finish_def)
  then show ?thesis
    by (auto simp: price_watcher_loop_mem alert_for_mem price_watcher_def)
qed

lemma quote_simps:
  "get_dexscreener_info (env_quote ''0'') u p = Info (Some (Fin 0)) None"
  "get_dexscreener_info (env_quote ''9'') u p = Info (Some (Fin 9)) None"
  "get_dexscreener_info (env_quote ''11'') u p = Info (Some (Fin 11)) None"
  by (simp_all add: env_quote_def get_dexscreener_info_def json_get_def)

theorem alert_fires_when_nonzero_and_reached_witness:
  "Send 7 (AlertFired ''X'' (Fin 11) (Fin 10)) \<in> set (out (price_watcher (env_quote ''11'') (s_alert (Fin 10)))) \<and>
   Send 7 (AlertFired ''X'' (Fin 11) (Fin 10)) \<in>
     set (out (price_watcher (env_quote ''11'')
       (st (price_watcher (env_quote ''11'') (st (price_watcher (env_quote ''9'') (s_alert (Fin 10)))))))) \<and>
   Send 7 (AlertFired ''X'' (Fin 9) (Fin 10)) \<notin> set (out (price_watcher (env_quote ''9'') (s_alert (Fin 10))))"
  using alert_fires_when_nonzero_and_reached [of 7 "AlertFired ''X'' (Fin 11) (Fin 10)" "env_quote ''11''" "s_alert (Fin 10)"]
    alert_fires_when_nonzero_and_reached [of 7 "AlertFired ''X'' (Fin 9) (Fin 10)" "env_quote ''9''" "s_alert (Fin 10)"]
  by (simp add: s_alert_def quote_simps)

text \<open>
  Claim C6 as stated fails where the fetched price is zero: with the threshold 0 and
  the price 0, price >= threshold holds and nothing is sent.
\<close>

theorem alert_at_zero_price_counterexample:
  "user_pairs (s_alert (Fin 0)) 7 = Some ''X'' \<and>
   price_alerts (s_alert (Fin 0)) = [(7, Fin 0)] \<and>
   get_price (get_dexscreener_info (env_quote ''0'') 7 ''X'') = Some (Fin 0) \<and>
   fge (Fin 0) (Fin 0) \<and>
   out (price_watcher (env_quote ''0'') (s_alert (Fin 0))) = []"
  by (simp add: s_alert_def quote_simps price_watcher_def finish_def alert_for_def)

subsection \<open>Conversation flags\<close>

lemma st_after [simp]: "st (after es r) = st r"
  by (simp add: after_def)

lemma st_start_command [simp]: "st (start_command e s u) = s"
  by (simp add: start_command_def)

lemma st_buy_steps:
  "st (buy_steps e s u amt kp) = s \<or>
   (\<exists>ps. st (buy_steps e s u amt kp) = s\<lparr>positions := (positions s)(u \<mapsto> ps)\<rparr>)"
  by (auto simp: buy_steps_def Let_def split: prod.splits sum.splits tx_result.splits)

lemma buy_steps_keeps [simp]:
  "user_data (st (buy_steps e s u amt kp)) = user_data s"
  "user_wallets (st (buy_steps e s u amt kp)) = user_wallets s"
  "user_pairs (st (buy_steps e s u amt kp)) = user_pairs s"
  "price_alerts (st (buy_steps e s u amt kp)) = price_alerts s"
  using st_buy_steps [of e s u amt kp] by auto

lemma st_sell_all:
  "st (sell_all e s u kp) = s \<or>
   (\<exists>ps. st (sell_all e s u kp) = s\<lparr>positions := (positions s)(u \<mapsto> ps)\<rparr>)"
  by (auto simp: sell_all_def Let_def split: prod.splits sum.splits tx_result.splits)

lemma sell_all_keeps [simp]:
  "user_data (st (sell_all e s u kp)) = user_data s"
  "user_wallets (st (sell_all e s u kp)) = user_wallets s"
  "user_pairs (st (sell_all e s u kp)) = user_pairs s"
  "price_alerts (st (sell_all e s u kp)) = price_alerts s"
  using st_sell_all [of e s u kp] by auto

lemma st_simple [simp]:
  "st (price_command e s u) = s" "st (balance_command e s u) = s"
  "st (positions_command e s u) = s" "st (buy_command e s u) = s"
  "st (sell_command e s u) = s" "st (price_watcher e s) = s"
  by (simp_all add: price_command_def balance_command_def positions_command_def
      buy_command_def sell_command_def price_watcher_def Let_def
      split: option.splits info.splits sum.splits prod.splits)

lemma message_handler_user_data:
  "user_data (st (message_handler e s u text)) = (user_data s)(u := clear_first (user_data s u))"
  by (simp add: message_handler_def Let_def clear_first_def
      split: option.splits sum.splits)


lemma pending_set [simp]:
  "pending (f\<lparr>awaiting_connectwallet := True\<rparr>) \<le> Suc (pending f)"
  "pending (f\<lparr>awaiting_setpair := True\<rparr>) \<le> Suc (pending f)"
  "pending (f\<lparr>awaiting_alert := True\<rparr>) \<le> Suc (pending f)"
  "pending (f\<lparr>awaiting_buy_custom := True\<rparr>) \<le> Suc (pending f)"
  "pending (f\<lparr>awaiting_sell_custom := True\<rparr>) \<le> Suc (pending f)"
  by (simp_all add: pending_def)

lemma pending_clear_first: "pending (clear_first f) = pending f - 1"
  by (simp add: pending_def clear_first_def)

lemma keeps_set [simp]:
  "keeps f f"
  "keeps f (f\<lparr>awaiting_connectwallet := True\<rparr>)"
  "keeps f (f\<lparr>awaiting_setpair := True\<rparr>)"
  "keeps f (f\<lparr>awaiting_alert := True\<rparr>)"
  "keeps f (f\<lparr>awaiting_buy_custom := True\<rparr>)"
  "keeps f (f\<lparr>awaiting_sell_custom := True\<rparr>)"
  by (simp_all add: keeps_def)

text \<open>What one event does to the flags and to the wallets of a user.\<close>

lemma command_flags:
  "user_data (st (dispatch e s (Command u name args))) = user_data s \<or>
   user_data (st (dispatch e s (Command u name args))) =
     (user_data s)(u := (user_data s u)\<lparr>awaiting_connectwallet := True\<rparr>)"
  by (simp add: dispatch_def connectwallet_command_def setpair_command_def alert_command_def
      split: list.splits sum.splits option.splits)

lemma button_flags:
  "user_data (st (dispatch e s (Button u data))) = user_data s \<or>
   user_data (st (dispatch e s (Button u data))) =
     (user_data s)(u := (user_data s u)\<lparr>awaiting_connectwallet := True\<rparr>) \<or>
   user_data (st (dispatch e s (Button u data))) =
     (user_data s)(u := (user_data s u)\<lparr>awaiting_setpair := True\<rparr>) \<or>
   user_data (st (dispatch e s (Button u data))) =
     (user_data s)(u := (user_data s u)\<lparr>awaiting_alert := True\<rparr>) \<or>
   user_wallets s u \<noteq> None \<and> user_data (st (dispatch e s (Button u data))) =
     (user_data s)(u := (user_data s u)\<lparr>awaiting_buy_custom := True\<rparr>) \<or>
   user_wallets s u \<noteq> None \<and> user_data (st (dispatch e s (Button u data))) =
     (user_data s)(u := (user_data s u)\<lparr>awaiting_sell_custom := True\<rparr>)"
  by (simp add: dispatch_def handle_main_menu_callback_def handle_buy_sell_callback_def
      sell_steps_def
      split: option.splits prod.splits sum.splits tx_result.splits)

lemma dispatch_wallets:
  "user_wallets s v \<noteq> None \<Longrightarrow> user_wallets (st (dispatch e s ev)) v \<noteq> None"
  by (cases ev)
    (auto simp: dispatch_def connectwallet_command_def setpair_command_def alert_command_def
      handle_main_menu_callback_def handle_buy_sell_callback_def sell_steps_def
      message_handler_def Let_def
      split: list.splits option.splits prod.splits sum.splits tx_result.splits if_splits)

lemma dispatch_pending:
  "pending (user_data (st (dispatch e s ev)) v) \<le> Suc (pending (user_data s v))"
proof (cases ev)
  case (Command u name args)
  then show ?thesis using command_flags [of e s u name args] by auto
next
  case (Button u data)
  then show ?thesis using button_flags [of e s u data] by auto
next
  case (FreeText u t)
  then show ?thesis
    by (auto simp: dispatch_def message_handler_user_data pending_clear_first)
next
  case Tick
  then show ?thesis by (simp add: dispatch_def)
qed

lemma dispatch_keeps:
  assumes "\<And>u t. ev \<noteq> FreeText u t"
  shows "keeps (user_data s v) (user_data (st (dispatch e s ev)) v)"
proof (cases ev)
  case (Command u name args)
  then show ?thesis using command_flags [of e s u name args] by auto
next
  case (Button u data)
  then show ?thesis using button_flags [of e s u data] by auto
next
  case (FreeText u t)
  then show ?thesis using assms by simp
next
  case Tick
  then show ?thesis by (simp add: dispatch_def)
qed

text \<open>
  Claim C3, amended. An event sets at most one flag of a user; an event other than a
  free-text reply clears none, so a flag set earlier stays set when another prompt is
  requested. A free-text reply of a user clears the first of that user's flags that is
  set, in the order connectwallet, setpair, alert, buy, sell, and changes no other flag,
  of that user or of another: exactly one flag is cleared when one is set, none when
  none is set. The number of flags set stays at most one only while each prompt is
  answered before the next one is requested.
\<close>

theorem flags_set_independently:
  "pending (user_data (st (dispatch e s ev)) v) \<le> pending (user_data s v) + 1 \<and>
   ((\<forall>u t. ev \<noteq> FreeText u t) \<longrightarrow> keeps (user_data s v) (user_data (st (dispatch e s ev)) v)) \<and>
   pending (user_data (st (dispatch e s (FreeText u text))) u) = pending (user_data s u) - 1 \<and>
   user_data (st (dispatch e s (FreeText u text))) u =
     (let ud = user_data s u
      in if awaiting_connectwallet ud then ud\<lparr>awaiting_connectwallet := False\<rparr>
         else if awaiting_setpair ud then ud\<lparr>awaiting_setpair := False\<rparr>
         else if awaiting_alert ud then ud\<lparr>awaiting_alert := False\<rparr>
         else if awaiting_buy_custom ud then ud\<lparr>awaiting_buy_custom := False\<rparr>
         else if awaiting_sell_custom ud then ud\<lparr>awaiting_sell_custom := False\<rparr>
         else ud) \<and>
   (v \<noteq> u \<longrightarrow> user_data (st (dispatch e s (FreeText u text))) v = user_data s v)"
proof -
  have free: "user_data (st (dispatch e s (FreeText u text))) =
      (user_data s)(u := clear_first (user_data s u))"
    by (simp add: dispatch_def message_handler_user_data)
  have bound: "pending (user_data (st (dispatch e s ev)) v) \<le> pending (user_data s v) + 1"
    using dispatch_pending [of e s ev v] by simp
  have kept: "(\<forall>u t. ev \<noteq> FreeText u t) \<longrightarrow>
      keeps (user_data s v) (user_data (st (dispatch e s ev)) v)"
    using dispatch_keeps [of ev s v e] by blast
  have count: "pending (user_data (st (dispatch e s (FreeText u text))) u) =
      pending (user_data s u) - 1"
    by (simp add: free pending_clear_first)
  have first: "user_data (st (dispatch e s (FreeText u text))) u =
     (let ud = user_data s u
      in if awaiting_connectwallet ud then ud\<lparr>awaiting_connectwallet := False\<rparr>
         else if awaiting_setpair ud then ud\<lparr>awaiting_setpair := False\<rparr>
         else if awaiting_alert ud then ud\<lparr>awaiting_alert := False\<rparr>
         else if awaiting_buy_custom ud then ud\<lparr>awaiting_buy_custom := False\<rparr>
         else if awaiting_sell_custom ud then ud\<lparr>awaiting_sell_custom := False\<rparr>
         else ud)"
    by (simp add: free clear_first_def Let_def)
  have others: "v \<noteq> u \<longrightarrow> user_data (st (dispatch e s (FreeText u text))) v = user_data s v"
    by (simp add: free)
  show ?thesis
    using bound kept count first others by blast
qed

subsection \<open>Custom amounts and the wallet\<close>

lemma wallet_invariant:
  "reachable s \<Longrightarrow>
     \<forall>u. awaiting_buy_custom (user_data s u) \<or> awaiting_sell_custom (user_data s u)
       \<longrightarrow> user_wallets s u \<noteq> None"
proof (induction rule: reachable.induct)
  case reach_init
  then show ?case by (simp add: init_state_def no_flags_def)
next
  case (reach_step s e ev)
  show ?case
  proof (intro allI impI)
    fix u
    assume flag: "awaiting_buy_custom (user_data (st (dispatch e s ev)) u) \<or>
      awaiting_sell_custom (user_data (st (dispatch e s ev)) u)"
    have "user_wallets s u \<noteq> None"
    proof (cases ev)
      case (Command w name args)
      then show ?thesis
        using flag reach_step.IH command_flags [of e s w name args]
        by (auto split: if_splits)
    next
      case (Button w data)
      then show ?thesis
        using flag reach_step.IH button_flags [of e s w data]
        by (auto split: if_splits)
    next
      case (FreeText w t)
      then show ?thesis
        using flag reach_step.IH
        by (auto simp: dispatch_def message_handler_user_data clear_first_def split: if_splits)
    next
      case Tick
      then show ?thesis using flag reach_step.IH by (auto simp: dispatch_def)
    qed
    then show "user_wallets (st (dispatch e s ev)) u \<noteq> None"
      by (rule dispatch_wallets)
  qed
qed


lemma s_one_prompt_eq:
  "s_one_prompt = set_flags init_state 7 (\<lambda>f. f\<lparr>awaiting_connectwallet := True\<rparr>)"
  by (simp add: s_one_prompt_def dispatch_def handle_main_menu_callback_def)

lemma s_two_prompts_eq:
  "s_two_prompts = set_flags s_one_prompt 7 (\<lambda>f. f\<lparr>awaiting_setpair := True\<rparr>)"
  by (simp add: s_two_prompts_def dispatch_def handle_main_menu_callback_def)

lemma reachable_two_prompts: "reachable s_two_prompts"
  unfolding s_two_prompts_def s_one_prompt_def
  by (intro reach_step reach_init)

text \<open>
  Claim C3 as stated fails: after the wallet prompt and the pair prompt, both requested
  from the menu, two flags of user 7 are set.
\<close>

theorem two_modes_pending_counterexample:
  "reachable s_two_prompts \<and> awaiting_connectwallet (user_data s_two_prompts 7) \<and>
   awaiting_setpair (user_data s_two_prompts 7) \<and> pending (user_data s_two_prompts 7) = 2"
  using reachable_two_prompts
  by (simp add: s_two_prompts_eq s_one_prompt_eq init_state_def no_flags_def pending_def)

theorem flags_set_independently_witness:
  "awaiting_connectwallet (user_data (st (dispatch env_ok s_one_prompt (Button 7 ''menu_setpair''))) 7) \<and>
   pending (user_data (st (dispatch env_ok s_one_prompt (FreeText 7 ''key''))) 7) = 0 \<and>
   user_data (st (dispatch env_ok s_two_prompts (FreeText 7 ''key''))) 7 =
     no_flags\<lparr>awaiting_setpair := True\<rparr> \<and>
   user_data (st (dispatch env_ok s_two_prompts (FreeText 7 ''key''))) 8 =
     user_data s_two_prompts 8"
  using flags_set_independently [of env_ok s_one_prompt "Button 7 ''menu_setpair''" 7 7 "''key''"]
    flags_set_independently [of env_ok s_two_prompts "Tick" 8 7 "''key''"]
  by (simp add: keeps_def s_two_prompts_eq s_one_prompt_eq init_state_def no_flags_def
      pending_def)

text \<open>
  Claim C7, amended. A free-text reply clears the first flag that is set, whatever
  happens next (also when the handler is left by an exception), and leaves the other
  flags as they were: the user has no flag set afterwards when at most one was set
  before. When the key cannot be decoded, or the threshold or the amount is no number,
  the user is sent the error message and nothing but that flag changes: wallets, pairs,
  alerts and positions are as before.
\<close>

theorem free_text_clears_first_flag:
  "user_data (st (message_handler e s u text)) = (user_data s)(u := clear_first (user_data s u)) \<and>
   (pending (user_data s u) \<le> 1 \<longrightarrow> user_data (st (message_handler e s u text)) u = no_flags) \<and>
   (awaiting_connectwallet (user_data s u) \<and> keypair_from_base58 e (strip text) = Inl msg \<longrightarrow>
      message_handler e s u text =
        finish (set_flags s u (\<lambda>f. f\<lparr>awaiting_connectwallet := False\<rparr>))
          [Reply (WalletError msg),
           Reply (Menu (case user_wallets s u of
                          Some kp \<Rightarrow> Some (take 7 (pubkey e kp)) | None \<Rightarrow> None))]) \<and>
   (\<not> awaiting_connectwallet (user_data s u) \<and> \<not> awaiting_setpair (user_data s u) \<and>
    parse_float e (strip text) = None \<longrightarrow>
      (awaiting_alert (user_data s u) \<longrightarrow>
         message_handler e s u text =
           finish (set_flags s u (\<lambda>f. f\<lparr>awaiting_alert := False\<rparr>)) [Reply InvalidPrice]) \<and>
      (\<not> awaiting_alert (user_data s u) \<and> awaiting_buy_custom (user_data s u) \<longrightarrow>
         message_handler e s u text =
           finish (set_flags s u (\<lambda>f. f\<lparr>awaiting_buy_custom := False\<rparr>))
             [Reply InvalidAmountBuy]) \<and>
      (\<not> awaiting_alert (user_data s u) \<and> \<not> awaiting_buy_custom (user_data s u) \<and>
       awaiting_sell_custom (user_data s u) \<longrightarrow>
         message_handler e s u text =
           finish (set_flags s u (\<lambda>f. f\<lparr>awaiting_sell_custom := False\<rparr>))
             [Reply InvalidAmountSell]))"
proof -
  have idle: "clear_first f = no_flags" if "pending f \<le> 1" for f
    using that by (cases f) (auto simp: pending_def clear_first_def no_flags_def split: if_splits)
  have flags: "user_data (st (message_handler e s u text)) =
      (user_data s)(u := clear_first (user_data s u))"
    by (rule message_handler_user_data)
  have key: "message_handler e s u text =
        finish (set_flags s u (\<lambda>f. f\<lparr>awaiting_connectwallet := False\<rparr>))
          [Reply (WalletError msg),
           Reply (Menu (case user_wallets s u of
                          Some kp \<Rightarrow> Some (take 7 (pubkey e kp)) | None \<Rightarrow> None))]"
    if "awaiting_connectwallet (user_data s u)" "keypair_from_base58 e (strip text) = Inl msg"
    using that by (simp add: message_handler_def Let_def start_command_def after_def finish_def)
  have number: "(awaiting_alert (user_data s u) \<longrightarrow>
         message_handler e s u text =
           finish (set_flags s u (\<lambda>f. f\<lparr>awaiting_alert := False\<rparr>)) [Reply InvalidPrice]) \<and>
      (\<not> awaiting_alert (user_data s u) \<and> awaiting_buy_custom (user_data s u) \<longrightarrow>
         message_handler e s u text =
           finish (set_flags s u (\<lambda>f. f\<lparr>awaiting_buy_custom := False\<rparr>))
             [Reply InvalidAmountBuy]) \<and>
      (\<not> awaiting_alert (user_data s u) \<and> \<not> awaiting_buy_custom (user_data s u) \<and>
       awaiting_sell_custom (user_data s u) \<longrightarrow>
         message_handler e s u text =
           finish (set_flags s u (\<lambda>f. f\<lparr>awaiting_sell_custom := False\<rparr>))
             [Reply InvalidAmountSell])"
    if "\<not> awaiting_connectwallet (user_data s u)" "\<not> awaiting_setpair (user_data s u)"
      "parse_float e (strip text) = None"
    using that
    by (simp add: message_handler_def Let_def finish_def raise_def except_ValueError_def)
  show ?thesis
    using flags idle [of "user_data s u"] key number by simp
qed


text \<open>
  Claim C7 as stated fails: with the wallet flag and the pair flag both set, a key that
  cannot be decoded clears the wallet flag only; the pair flag is still set.
\<close>

theorem failed_key_leaves_mode_counterexample:
  "reachable s_two_prompts \<and>
   keypair_from_base58 env_ok (strip ''bad'') = Inl ''bad key'' \<and>
   awaiting_setpair (user_data (st (message_handler env_ok s_two_prompts 7 ''bad'')) 7)"
proof -
  have stripped: "strip ''bad'' = ''bad''"
    by code_simp
  show ?thesis
    using reachable_two_prompts
    by (simp add: message_handler_user_data clear_first_def s_two_prompts_eq s_one_prompt_eq
        stripped env_ok_def)
qed

theorem free_text_clears_first_flag_witness:
  "message_handler env_ok (set_flags s_wallet 7 (\<lambda>f. f\<lparr>awaiting_alert := True\<rparr>)) 7 ''abc'' =
     finish (set_flags (set_flags s_wallet 7 (\<lambda>f. f\<lparr>awaiting_alert := True\<rparr>)) 7
               (\<lambda>f. f\<lparr>awaiting_alert := False\<rparr>))
       [Reply InvalidPrice] \<and>
   user_data (st (message_handler env_ok
       (set_flags s_wallet 7 (\<lambda>f. f\<lparr>awaiting_alert := True\<rparr>)) 7 ''abc'')) 7 = no_flags"
proof -
  have stripped: "strip ''abc'' = ''abc''"
    by code_simp
  have parse: "parse_float env_ok (strip ''abc'') = None"
    by (simp add: stripped env_ok_def)
  show ?thesis
    using free_text_clears_first_flag
      [of env_ok "set_flags s_wallet 7 (\<lambda>f. f\<lparr>awaiting_alert := True\<rparr>)" 7 "''abc''" "''x''"]
    by (simp add: parse no_flags_def pending_def)
qed

text \<open>
  Claim C10. In every state the program can reach, a user whose custom-buy or
  custom-sell flag is set has a wallet: the flags are set only behind the wallet test of
  \<open>handle_buy_sell_callback\<close> and no handler removes a wallet. So the free-text buy and
  sell find the wallet they look up and go on to the transaction with it.
\<close>

theorem custom_amount_has_wallet:
  assumes "reachable s"
    and "awaiting_buy_custom (user_data s u) \<or> awaiting_sell_custom (user_data s u)"
  shows "\<exists>kp. user_wallets s u = Some kp \<and>
     (\<not> awaiting_connectwallet (user_data s u) \<and> \<not> awaiting_setpair (user_data s u) \<and>
      \<not> awaiting_alert (user_data s u) \<and> parse_float e (strip text) = Some amt \<longrightarrow>
        (awaiting_buy_custom (user_data s u) \<longrightarrow>
           message_handler e s u text =
             except_ValueError InvalidAmountBuy
               (buy_steps e (set_flags s u (\<lambda>f. f\<lparr>awaiting_buy_custom := False\<rparr>)) u amt kp)) \<and>
        (\<not> awaiting_buy_custom (user_data s u) \<longrightarrow>
           message_handler e s u text =
             except_ValueError InvalidAmountSell
               (sell_steps e (set_flags s u (\<lambda>f. f\<lparr>awaiting_sell_custom := False\<rparr>)) u amt kp)))"
proof -
  from wallet_invariant [OF assms(1)] assms(2)
  obtain kp where kp: "user_wallets s u = Some kp" by auto
  show ?thesis
    using kp assms(2) by (auto simp: message_handler_def Let_def)
qed

lemma s_custom_buy_reachable: "reachable s_custom_buy"
  unfolding s_custom_buy_def by (intro reach_step reach_init)

theorem custom_amount_has_wallet_witness:
  "reachable s_custom_buy \<and> awaiting_buy_custom (user_data s_custom_buy 7) \<and>
   user_wallets s_custom_buy 7 = Some kp1"
proof -
  have connected: "st (dispatch env_ok init_state (Command 7 ''connectwallet'' [''key''])) =
      init_state\<lparr>user_wallets := [7 \<mapsto> kp1]\<rparr>"
    by (simp add: dispatch_def connectwallet_command_def env_ok_def kp1_def init_state_def)
  have flag: "awaiting_buy_custom (user_data s_custom_buy 7)"
    unfolding s_custom_buy_def connected
    by (simp add: dispatch_def handle_buy_sell_callback_def)
  have frame: "user_wallets s_custom_buy = [7 \<mapsto> kp1]"
    unfolding s_custom_buy_def connected
    by (simp add: dispatch_def handle_buy_sell_callback_def)
  from custom_amount_has_wallet [OF s_custom_buy_reachable, of 7 env_ok "''x''" "Fin 0"] flag
  obtain kp where "user_wallets s_custom_buy 7 = Some kp" by blast
  then show ?thesis
    using s_custom_buy_reachable flag frame by simp
qed

end
